theory Spec2Isabelle
  imports Complex_Main "HOL-Library.Log_Nat"
begin

section \<open>Values of the host language\<close>

text \<open>
  The visualization module reads an untyped agent state (\<^verbatim>\<open>state?: any\<close>) and message
  content, builds a \<^verbatim>\<open>VisualizationData\<close> object, and turns that object and optional
  table rows into React elements. This theory embeds the two exported functions
  \<^verbatim>\<open>extractVisualizationData\<close> and \<^verbatim>\<open>Visualization\<close> together with the three local
  components \<^verbatim>\<open>ChartVisualization\<close>, \<^verbatim>\<open>ImageVisualization\<close> and \<^verbatim>\<open>TextVisualization\<close>.

  Scope of the embedding.
  \<^item> Untyped data (\<^verbatim>\<open>any\<close>) is JSON-like: undefined, null, booleans, numbers, strings,
    arrays and plain objects with distinct keys.
  \<^item> A number is \<open>NaN\<close> or a real; the two infinities and negative zero are not
    represented. The arithmetic of \<open>Visualization\<close> is exact. \<open>Visualization64\<close> is the same
    function with every operation on numbers rounded to double precision.
  \<^item> Strings are lists of 8-bit characters.
  \<^item> Conversions between numbers and strings belong to the language runtime and are
    parameters (\<open>host\<close>), as is \<^verbatim>\<open>JSON.parse\<close>. \<^verbatim>\<open>Math.random\<close> is a parameter giving the
    value of its \<open>i\<close>-th call.
  \<^item> Column names are not names of members inherited from \<^verbatim>\<open>Object.prototype\<close>.
  \<^item> The elements of the table rows are objects; a null or undefined element, on which
    the row filter of the source throws, is not represented.
  \<^item> Styling attributes (class names, colours, sizes) are not part of the elements.
\<close>

datatype jsnum = NaN | Fin real

datatype js =
    JUndefined
  | JNull
  | JBool bool
  | JNum jsnum
  | JStr string
  | JArr "js list"
  | JObj "(string \<times> js) list"

datatype error = TypeError | SyntaxError

record host =
  str_to_num :: "string \<Rightarrow> jsnum"
  num_to_str :: "jsnum \<Rightarrow> string"
  to_fixed2 :: "jsnum \<Rightarrow> string"

text \<open>Truthiness of a number: \<open>0\<close> and \<open>NaN\<close> are falsy.\<close>

fun truthy_num :: "jsnum \<Rightarrow> bool" where
  "truthy_num NaN = False"
| "truthy_num (Fin r) = (r \<noteq> 0)"

fun truthy :: "js \<Rightarrow> bool" where
  "truthy JUndefined = False"
| "truthy JNull = False"
| "truthy (JBool b) = b"
| "truthy (JNum n) = truthy_num n"
| "truthy (JStr s) = (s \<noteq> [])"
| "truthy (JArr xs) = True"
| "truthy (JObj kvs) = True"

text \<open>\<^verbatim>\<open>v == null\<close>: true of null and undefined only.\<close>

fun nullish :: "js \<Rightarrow> bool" where
  "nullish JUndefined = True"
| "nullish JNull = True"
| "nullish v = False"

text \<open>\<^verbatim>\<open>a || b\<close> on untyped values.\<close>

definition jor :: "js \<Rightarrow> js \<Rightarrow> js" where
  "jor a b = (if truthy a then a else b)"

text \<open>\<^verbatim>\<open>v.k\<close> and \<^verbatim>\<open>v[k]\<close> on a value that is neither null nor undefined.\<close>

fun lookup :: "js \<Rightarrow> string \<Rightarrow> js" where
  "lookup (JObj kvs) k = (case map_of kvs k of Some v \<Rightarrow> v | None \<Rightarrow> JUndefined)"
| "lookup v k = JUndefined"

text \<open>\<^verbatim>\<open>v.k\<close> in general: reading a property of null or undefined throws.\<close>

definition read_member :: "js \<Rightarrow> string \<Rightarrow> error + js" where
  "read_member v k = (if nullish v then Inl TypeError else Inr (lookup v k))"

text \<open>\<^verbatim>\<open>v?.k\<close>.\<close>

definition opt_chain :: "js \<Rightarrow> string \<Rightarrow> js" where
  "opt_chain v k = (if nullish v then JUndefined else lookup v k)"

text \<open>Arithmetic on numbers; \<open>NaN\<close> is absorbing.\<close>

fun num_add :: "jsnum \<Rightarrow> jsnum \<Rightarrow> jsnum" where
  "num_add (Fin a) (Fin b) = Fin (a + b)"
| "num_add a b = NaN"

fun num_sub :: "jsnum \<Rightarrow> jsnum \<Rightarrow> jsnum" where
  "num_sub (Fin a) (Fin b) = Fin (a - b)"
| "num_sub a b = NaN"

fun num_mul :: "jsnum \<Rightarrow> jsnum \<Rightarrow> jsnum" where
  "num_mul (Fin a) (Fin b) = Fin (a * b)"
| "num_mul a b = NaN"

text \<open>\<^verbatim>\<open>Array.prototype.join(",")\<close> on strings.\<close>

fun join_comma :: "string list \<Rightarrow> string" where
  "join_comma [] = []"
| "join_comma [s] = s"
| "join_comma (s # t # ss) = s @ '','' @ join_comma (t # ss)"

text \<open>\<^verbatim>\<open>String(v)\<close>, also the conversion inside a template literal.\<close>

fun to_string :: "host \<Rightarrow> js \<Rightarrow> string" where
  "to_string h JUndefined = ''undefined''"
| "to_string h JNull = ''null''"
| "to_string h (JBool b) = (if b then ''true'' else ''false'')"
| "to_string h (JNum n) = num_to_str h n"
| "to_string h (JStr s) = s"
| "to_string h (JArr xs) =
     join_comma (map (\<lambda>x. if nullish x then [] else to_string h x) xs)"
| "to_string h (JObj kvs) = ''[object Object]''"

text \<open>\<^verbatim>\<open>Number(v)\<close>.\<close>

fun to_number :: "host \<Rightarrow> js \<Rightarrow> jsnum" where
  "to_number h JUndefined = NaN"
| "to_number h JNull = Fin 0"
| "to_number h (JBool b) = (if b then Fin 1 else Fin 0)"
| "to_number h (JNum n) = n"
| "to_number h (JStr s) = str_to_num h s"
| "to_number h (JArr xs) = str_to_num h (to_string h (JArr xs))"
| "to_number h (JObj kvs) = str_to_num h (to_string h (JObj kvs))"

section \<open>The visualization descriptor\<close>

text \<open>
  The interface \<^verbatim>\<open>VisualizationData\<close>. Every field is optional; \<open>None\<close> is an absent
  (undefined) field. The fields \<^verbatim>\<open>type\<close>, \<^verbatim>\<open>text\<close> and \<^verbatim>\<open>image\<close> are named \<open>viz_type\<close>,
  \<open>viz_text\<close> and \<open>viz_image\<close>; the fields of the nested \<^verbatim>\<open>spec\<close> object carry the prefix \<open>spec_\<close>.
  \<^verbatim>\<open>type\<close> and \<^verbatim>\<open>chart_type\<close> are strings: the code compares them with string
  literals and has a branch for a chart type outside the four it draws.
\<close>

record Spec =
  spec_chart_type :: "string option"
  spec_x_column :: "string option"
  spec_y_column :: "string option"
  spec_title :: "string option"

record Summary =
  x_data_sample :: "js list option"
  y_range :: "(jsnum \<times> jsnum) option"
  y_average :: "jsnum option"
  row_count :: "jsnum option"

record VisualizationData =
  viz_type :: "string option"
  chart_type :: "string option"
  x_column :: "string option"
  y_column :: "string option"
  title :: "string option"
  viz_text :: "string option"
  spec :: "Spec option"
  data_summary :: "Summary option"
  viz_image :: "string option"
  mimeType :: "string option"

text \<open>Truthiness and \<^verbatim>\<open>||\<close> at the declared types.\<close>

fun truthy_str :: "string option \<Rightarrow> bool" where
  "truthy_str None = False"
| "truthy_str (Some s) = (s \<noteq> [])"

definition str_or :: "string option \<Rightarrow> string option \<Rightarrow> string option" where
  "str_or a b = (if truthy_str a then a else b)"

text \<open>\<^verbatim>\<open>a || "literal"\<close>: the result is always a string.\<close>

fun str_or_lit :: "string option \<Rightarrow> string \<Rightarrow> string" where
  "str_or_lit None d = d"
| "str_or_lit (Some s) d = (if s \<noteq> [] then s else d)"

fun num_or_lit :: "jsnum option \<Rightarrow> jsnum \<Rightarrow> jsnum" where
  "num_or_lit None d = d"
| "num_or_lit (Some n) d = (if truthy_num n then n else d)"

text \<open>\<^verbatim>\<open>data.spec?.chart_type\<close> and its three siblings.\<close>

definition spec_field :: "(Spec \<Rightarrow> string option) \<Rightarrow> VisualizationData \<Rightarrow> string option" where
  "spec_field f d = (case spec d of None \<Rightarrow> None | Some sp \<Rightarrow> f sp)"

section \<open>Extraction\<close>

text \<open>
  Reading an untyped value at a declared type. The object literals of the extractor
  assign untyped expressions to the typed fields of \<^verbatim>\<open>VisualizationData\<close>; a value that
  is not of the declared type is read as absent.
\<close>

fun as_str :: "js \<Rightarrow> string option" where
  "as_str (JStr s) = Some s"
| "as_str v = None"

fun as_num :: "js \<Rightarrow> jsnum option" where
  "as_num (JNum n) = Some n"
| "as_num v = None"

fun as_array :: "js \<Rightarrow> js list option" where
  "as_array (JArr xs) = Some xs"
| "as_array v = None"

fun as_range :: "js \<Rightarrow> (jsnum \<times> jsnum) option" where
  "as_range (JArr [JNum a, JNum b]) = Some (a, b)"
| "as_range v = None"

fun as_spec :: "js \<Rightarrow> Spec option" where
  "as_spec (JObj kvs) = Some \<lparr>
     spec_chart_type = as_str (lookup (JObj kvs) ''chart_type''),
     spec_x_column = as_str (lookup (JObj kvs) ''x_column''),
     spec_y_column = as_str (lookup (JObj kvs) ''y_column''),
     spec_title = as_str (lookup (JObj kvs) ''title'') \<rparr>"
| "as_spec v = None"

fun as_summary :: "js \<Rightarrow> Summary option" where
  "as_summary (JObj kvs) = Some \<lparr>
     x_data_sample = as_array (lookup (JObj kvs) ''x_data_sample''),
     y_range = as_range (lookup (JObj kvs) ''y_range''),
     y_average = as_num (lookup (JObj kvs) ''y_average''),
     row_count = as_num (lookup (JObj kvs) ''row_count'') \<rparr>"
| "as_summary v = None"

text \<open>
  The object literal that both the state path and the content path of
  \<^verbatim>\<open>extractVisualizationData\<close> build from a visualization object \<open>v\<close>. Its first
  property read throws when \<open>v\<close> is null or undefined.
\<close>

definition descriptor :: "js \<Rightarrow> error + VisualizationData" where
  "descriptor v =
     (if nullish v then Inl TypeError
      else Inr \<lparr>
        viz_type = as_str (jor (lookup v ''type'') (JStr ''chart'')),
        chart_type = as_str (jor (jor (opt_chain (lookup v ''spec'') ''chart_type'')
                                      (lookup v ''chart_type'')) (JStr ''bar'')),
        x_column = as_str (jor (opt_chain (lookup v ''spec'') ''x_column'') (lookup v ''x_column'')),
        y_column = as_str (jor (opt_chain (lookup v ''spec'') ''y_column'') (lookup v ''y_column'')),
        title = as_str (jor (jor (lookup v ''title'') (opt_chain (lookup v ''spec'') ''title''))
                            (JStr ''Chart'')),
        viz_text = as_str (lookup v ''text''),
        spec = as_spec (lookup v ''spec''),
        data_summary = as_summary (lookup v ''data_summary''),
        viz_image = as_str (lookup v ''image''),
        mimeType = as_str (lookup v ''mimeType'') \<rparr>)"

text \<open>The descriptor of the last return statement.\<close>

definition default_descriptor :: VisualizationData where
  "default_descriptor = \<lparr>
     viz_type = Some ''chart'', chart_type = Some ''bar'', x_column = None, y_column = None,
     title = Some ''Chart'', viz_text = None, spec = None, data_summary = None,
     viz_image = None, mimeType = None \<rparr>"

text \<open>The result of extraction: \<^verbatim>\<open>{ visualization, sqlResult }\<close>.\<close>

record Extraction =
  visualization :: "VisualizationData option"
  sqlResult :: "js list option"

text \<open>
  \<^verbatim>\<open>state?.final_response?.sql?.result || state?.sql_result\<close> and the three places
  a visualization object is looked for.
\<close>

definition state_sql :: "js \<Rightarrow> js" where
  "state_sql state =
     jor (opt_chain (opt_chain (opt_chain state ''final_response'') ''sql'') ''result'')
         (opt_chain state ''sql_result'')"

definition stateViz :: "js \<Rightarrow> js" where
  "stateViz state =
     jor (jor (opt_chain (opt_chain state ''final_response'') ''visualization'')
              (opt_chain state ''visualization''))
         (opt_chain state ''guarded_visualization'')"

text \<open>\<^verbatim>\<open>Array.isArray(sqlResult) ? sqlResult : undefined\<close>.\<close>

definition array_or_undefined :: "js \<Rightarrow> js list option" where
  "array_or_undefined v = as_array v"

subsection \<open>The regular expression\<close>

text \<open>
  \<^verbatim>\<open>/"visualization"\s*:\s*\{[^{}]*(?:\{[^{}]*\}[^{}]*)*\}/\<close>. After the opening brace the
  expression accepts text with braces nested at most one level deep and stops at the
  first closing brace on the outer level; no proper prefix of a match is a match, so
  the greedy search finds the one candidate at each starting position. \<open>braces inner s\<close>
  reads up to that closing brace and returns what follows it.
\<close>

definition is_space :: "char \<Rightarrow> bool" where
  "is_space c = (of_char c \<in> {9, 10, 11, 12, 13, 32, 160 :: nat})"

definition key_literal :: string where
  "key_literal = CHR 0x22 # ''visualization'' @ [CHR 0x22]"

fun braces :: "bool \<Rightarrow> string \<Rightarrow> string option" where
  "braces inner [] = None"
| "braces inner (c # cs) =
     (if c = CHR ''}'' then (if inner then braces False cs else Some cs)
      else if c = CHR ''{'' then (if inner then None else braces True cs)
      else braces inner cs)"

definition match_here :: "string \<Rightarrow> string option" where
  "match_here s =
     (if take (length key_literal) s = key_literal then
        (case dropWhile is_space (drop (length key_literal) s) of
           [] \<Rightarrow> None
         | c # r1 \<Rightarrow>
             if c = CHR '':'' then
               (case dropWhile is_space r1 of
                  [] \<Rightarrow> None
                | d # r2 \<Rightarrow>
                    if d = CHR ''{'' then
                      map_option (\<lambda>rest. take (length s - length rest) s) (braces False r2)
                    else None)
             else None)
      else None)"

text \<open>\<^verbatim>\<open>content.match(re)\<close>: the leftmost match, as element 0 of the result.\<close>

fun regex_match :: "string \<Rightarrow> string option" where
  "regex_match [] = None"
| "regex_match (c # cs) =
     (case match_here (c # cs) of Some m \<Rightarrow> Some m | None \<Rightarrow> regex_match cs)"

subsection \<open>\<^verbatim>\<open>extractVisualizationData\<close>\<close>

datatype content = Text string | Parts "js list"

text \<open>
  The body of the \<^verbatim>\<open>try\<close> block. \<open>Inl\<close> is an exception thrown inside it, \<open>Inr None\<close>
  is reaching its end without returning. \<open>parse\<close> is \<^verbatim>\<open>JSON.parse\<close>, \<open>None\<close> where
  it throws.
\<close>

definition try_body :: "(string \<Rightarrow> js option) \<Rightarrow> string \<Rightarrow> error + Extraction option" where
  "try_body parse s =
     (case regex_match s of
        None \<Rightarrow> Inr None
      | Some m \<Rightarrow>
          (case parse (''{'' @ m @ ''}'') of
             None \<Rightarrow> Inl SyntaxError
           | Some parsed \<Rightarrow>
               (case read_member parsed ''visualization'' of
                  Inl e \<Rightarrow> Inl e
                | Inr pv \<Rightarrow>
                    if truthy pv then
                      (case descriptor pv of
                         Inl e \<Rightarrow> Inl e
                       | Inr d \<Rightarrow> Inr (Some \<lparr> visualization = Some d, sqlResult = None \<rparr>))
                    else Inr None)))"

text \<open>
  Step 2 as a whole: the \<^verbatim>\<open>typeof content === "string"\<close> test and the \<^verbatim>\<open>catch\<close>
  clause, which ignores the exception.
\<close>

definition from_content :: "(string \<Rightarrow> js option) \<Rightarrow> content \<Rightarrow> Extraction option" where
  "from_content parse c =
     (case c of
        Parts ps \<Rightarrow> None
      | Text s \<Rightarrow> (case try_body parse s of Inl e \<Rightarrow> None | Inr r \<Rightarrow> r))"

definition extractVisualizationData ::
    "(string \<Rightarrow> js option) \<Rightarrow> content \<Rightarrow> js \<Rightarrow> error + Extraction" where
  "extractVisualizationData parse c state =
     (let sql = state_sql state; sv = stateViz state in
      if truthy sv then
        (case descriptor sv of
           Inl e \<Rightarrow> Inl e
         | Inr d \<Rightarrow> Inr \<lparr> visualization = Some d, sqlResult = array_or_undefined sql \<rparr>)
      else
        (case from_content parse c of
           Some r \<Rightarrow> Inr r
         | None \<Rightarrow> Inr \<lparr> visualization = Some default_descriptor,
                          sqlResult = array_or_undefined sql \<rparr>))"

section \<open>Rendering\<close>

text \<open>
  A row of the table result is an object from column names to values
  (\<^verbatim>\<open>ChartDataPoint\<close> and the elements of the parameter \<^verbatim>\<open>sqlResult\<close> of
  \<^verbatim>\<open>Visualization\<close>, which is \<open>sqlRows\<close> below). \<open>cell row k\<close> is \<^verbatim>\<open>row[k]\<close>, undefined
  for a missing column.
\<close>

type_synonym row = "(string \<times> js) list"

definition cell :: "row \<Rightarrow> string \<Rightarrow> js" where
  "cell r k = lookup (JObj r) k"

text \<open>
  The object literal \<^verbatim>\<open>{ [k1]: v1, [k2]: v2 }\<close>: with equal keys the second value
  replaces the first.
\<close>

definition obj2 :: "string \<Rightarrow> js \<Rightarrow> string \<Rightarrow> js \<Rightarrow> row" where
  "obj2 k1 v1 k2 v2 = (if k1 = k2 then [(k1, v2)] else [(k1, v1), (k2, v2)])"

text \<open>\<^verbatim>\<open>n || m\<close> on numbers.\<close>

definition num_or :: "jsnum \<Rightarrow> jsnum \<Rightarrow> jsnum" where
  "num_or a b = (if truthy_num a then a else b)"

subsection \<open>The elements produced\<close>

text \<open>
  What \<^verbatim>\<open>renderChart\<close> returns: the chart component, the data it is given and the
  data keys of its axes. The scatter case of the source draws a \<^verbatim>\<open>LineChart\<close> with
  dots and numeric axes; it has a constructor of its own. A pie is given its slices,
  each a name and a value.
\<close>

datatype chart_element =
    BarChart "row list" string string
  | LineChart "row list" string string
  | PieChart "(string \<times> jsnum) list"
  | ScatterChart "row list" string string
  | Unsupported string

text \<open>
  What a component returns. A chart card has its heading, its chart and, when the
  descriptor has a summary, the footer: the number of data points and the formatted
  range. An image card has an optional heading, the image URL and the alternative
  text; a text card an optional heading and the text.
\<close>

datatype element =
    Null
  | NoDataCard
  | ChartCard string chart_element "(jsnum \<times> (string \<times> string) option) option"
  | ImageCard "string option" string string
  | TextCard "string option" string

text \<open>What \<^verbatim>\<open>Visualization\<close> returns: null, or a \<^verbatim>\<open>div\<close> around one component.\<close>

datatype rendering = NoOutput | Wrapper element

text \<open>Nothing is drawn when the result is null or wraps a component that returned null.\<close>

definition renders_nothing :: "rendering \<Rightarrow> bool" where
  "renders_nothing out = (out = NoOutput \<or> out = Wrapper Null)"

text \<open>\<^verbatim>\<open>{data.title && <h3>...</h3>}\<close>.\<close>

definition heading :: "VisualizationData \<Rightarrow> string option" where
  "heading d = (if truthy_str (title d) then title d else None)"

subsection \<open>\<^verbatim>\<open>ChartVisualization\<close>\<close>

text \<open>The four constants at the head of the component.\<close>

definition chartType_of :: "VisualizationData \<Rightarrow> string" where
  "chartType_of d = str_or_lit (str_or (chart_type d) (spec_field spec_chart_type d)) ''bar''"

definition xColumn_of :: "VisualizationData \<Rightarrow> string" where
  "xColumn_of d = str_or_lit (str_or (x_column d) (spec_field spec_x_column d)) ''x''"

definition yColumn_of :: "VisualizationData \<Rightarrow> string" where
  "yColumn_of d = str_or_lit (str_or (y_column d) (spec_field spec_y_column d)) ''y''"

definition title_of :: "VisualizationData \<Rightarrow> string" where
  "title_of d = str_or_lit (str_or (title d) (spec_field spec_title d)) ''Chart''"

definition pieData :: "host \<Rightarrow> string \<Rightarrow> string \<Rightarrow> row list \<Rightarrow> (string \<times> jsnum) list" where
  "pieData h xColumn yColumn chartData =
     map (\<lambda>item. (to_string h (jor (cell item xColumn) (JStr ''Unknown'')),
                  to_number h (jor (cell item yColumn) (JNum (Fin 0))))) chartData"

definition renderChart :: "host \<Rightarrow> string \<Rightarrow> string \<Rightarrow> string \<Rightarrow> row list \<Rightarrow> chart_element" where
  "renderChart h chartType xColumn yColumn chartData =
     (if chartType = ''bar'' then BarChart chartData xColumn yColumn
      else if chartType = ''line'' then LineChart chartData xColumn yColumn
      else if chartType = ''pie'' then PieChart (pieData h xColumn yColumn chartData)
      else if chartType = ''scatter'' then ScatterChart chartData xColumn yColumn
      else Unsupported chartType)"

definition footer :: "host \<Rightarrow> VisualizationData \<Rightarrow> row list \<Rightarrow>
    (jsnum \<times> (string \<times> string) option) option" where
  "footer h d chartData =
     (case data_summary d of
        None \<Rightarrow> None
      | Some ds \<Rightarrow>
          Some (num_or_lit (row_count ds) (Fin (real (length chartData))),
                map_option (\<lambda>(lo, hi). (to_fixed2 h lo, to_fixed2 h hi)) (y_range ds)))"

definition ChartVisualization :: "host \<Rightarrow> VisualizationData \<Rightarrow> row list \<Rightarrow> element" where
  "ChartVisualization h d chartData =
     (if chartData = [] then NoDataCard
      else ChartCard (title_of d)
             (renderChart h (chartType_of d) (xColumn_of d) (yColumn_of d) chartData)
             (footer h d chartData))"

subsection \<open>\<^verbatim>\<open>ImageVisualization\<close> and \<^verbatim>\<open>TextVisualization\<close>\<close>

definition imageUrl :: "string \<Rightarrow> string option \<Rightarrow> string" where
  "imageUrl img mime =
     (if take 5 img = ''data:'' then img
      else ''data:'' @ str_or_lit mime ''image/png'' @ '';base64,'' @ img)"

definition ImageVisualization :: "VisualizationData \<Rightarrow> element" where
  "ImageVisualization d =
     (case viz_image d of
        None \<Rightarrow> Null
      | Some img \<Rightarrow>
          if img = [] then Null
          else ImageCard (heading d) (imageUrl img (mimeType d))
                 (str_or_lit (title d) ''Visualization''))"

definition TextVisualization :: "VisualizationData \<Rightarrow> element" where
  "TextVisualization d =
     (case viz_text d of
        None \<Rightarrow> Null
      | Some t \<Rightarrow> if t = [] then Null else TextCard (heading d) t)"

subsection \<open>\<^verbatim>\<open>Visualization\<close>\<close>

text \<open>\<^verbatim>\<open>const vizType = data.type || "text"\<close>.\<close>

definition vizType :: "VisualizationData \<Rightarrow> string" where
  "vizType d = str_or_lit (viz_type d) ''text''"

text \<open>
  The condition of the chart branch:
  \<^verbatim>\<open>vizType === "chart" || (data.chart_type && sqlResult && sqlResult.length > 0)\<close>.
\<close>

definition chart_branch :: "VisualizationData \<Rightarrow> row list option \<Rightarrow> bool" where
  "chart_branch d sqlRows =
     (vizType d = ''chart'' \<or>
      (truthy_str (chart_type d) \<and>
       (case sqlRows of None \<Rightarrow> False | Some rows \<Rightarrow> 0 < length rows)))"

text \<open>
  The chart data built from the table rows: rows with both columns present, the y value
  made a number. The result is empty when a column name is unresolved or no rows are
  given, the cases in which the source does not build the list.
\<close>

definition sql_chart_data :: "host \<Rightarrow> VisualizationData \<Rightarrow> row list option \<Rightarrow> row list" where
  "sql_chart_data h d sqlRows =
     (case (str_or (x_column d) (spec_field spec_x_column d),
            str_or (y_column d) (spec_field spec_y_column d), sqlRows) of
        (Some xColumn, Some yColumn, Some rows) \<Rightarrow>
          if xColumn \<noteq> [] \<and> yColumn \<noteq> [] then
            map (\<lambda>row. obj2 xColumn (cell row xColumn)
                             yColumn (JNum (num_or (to_number h (cell row yColumn)) (Fin 0))))
                (filter (\<lambda>row. \<not> nullish (cell row xColumn) \<and> \<not> nullish (cell row yColumn)) rows)
          else []
      | _ \<Rightarrow> [])"

text \<open>
  The chart data reconstructed from the summary: one point for each sample value, its y
  value \<^verbatim>\<open>yAvg + (Math.random() - 0.5) * (yRange[1] - yRange[0]) * 0.3\<close>. \<open>random i\<close> is
  the value of the call made for the sample value at index \<open>i\<close>.
\<close>

definition synth_y :: "jsnum \<Rightarrow> jsnum \<times> jsnum \<Rightarrow> real \<Rightarrow> jsnum" where
  "synth_y yAvg yRange r =
     num_add yAvg
       (num_mul (num_mul (num_sub (Fin r) (Fin (5 / 10))) (num_sub (snd yRange) (fst yRange)))
                (Fin (3 / 10)))"

definition summary_chart_data :: "(nat \<Rightarrow> real) \<Rightarrow> VisualizationData \<Rightarrow> row list" where
  "summary_chart_data random d =
     (case data_summary d of
        None \<Rightarrow> []
      | Some ds \<Rightarrow>
          (case x_data_sample ds of
             None \<Rightarrow> []
           | Some xSample \<Rightarrow>
               (let yRange = (case y_range ds of Some r \<Rightarrow> r | None \<Rightarrow> (Fin 0, Fin 100));
                    yAvg = num_or_lit (y_average ds) (Fin 50)
                in map (\<lambda>(x, idx). obj2 (xColumn_of d) x
                                        (yColumn_of d) (JNum (synth_y yAvg yRange (random idx))))
                       (zip xSample [0..<length xSample]))))"

definition Visualization ::
    "host \<Rightarrow> (nat \<Rightarrow> real) \<Rightarrow> VisualizationData option \<Rightarrow> row list option \<Rightarrow> rendering" where
  "Visualization h random data sqlRows =
     (case data of
        None \<Rightarrow> NoOutput
      | Some d \<Rightarrow>
          if vizType d = ''image'' \<or> truthy_str (viz_image d) then
            Wrapper (ImageVisualization d)
          else if chart_branch d sqlRows \<and> sql_chart_data h d sqlRows \<noteq> [] then
            Wrapper (ChartVisualization h d (sql_chart_data h d sqlRows))
          else if chart_branch d sqlRows \<and> summary_chart_data random d \<noteq> [] then
            Wrapper (ChartVisualization h d (summary_chart_data random d))
          else if vizType d = ''text'' \<or> truthy_str (viz_text d) then
            Wrapper (TextVisualization d)
          else NoOutput)"

section \<open>Double-precision arithmetic\<close>

text \<open>
  The numbers of the source are IEEE 754 binary64 values, and each arithmetic operation
  returns the exact result rounded to the nearest such value, ties going to the even
  significand. \<open>rne\<close> rounds a real to the nearest integer, ties to even; \<open>expo x\<close> is
  the exponent \<open>e\<close> with \<open>2^e \<le> |x| < 2^(e+1)\<close>; \<open>round64\<close> rounds to 53 significant
  bits. The exponent range is not bounded: overflow and subnormal numbers are not
  represented.
\<close>

definition rne :: "real \<Rightarrow> int" where
  "rne x = (let f = \<lfloor>x\<rfloor>; d = x - of_int f in
            if d < 1 / 2 then f else if 1 / 2 < d then f + 1
            else if even f then f else f + 1)"

definition expo :: "real \<Rightarrow> int" where
  "expo x = (if 1 \<le> \<bar>x\<bar> then bitlen \<lfloor>\<bar>x\<bar>\<rfloor> - 1 else - bitlen (\<lceil>1 / \<bar>x\<bar>\<rceil> - 1))"

definition round64 :: "real \<Rightarrow> real" where
  "round64 x = (if x = 0 then 0
                else of_int (rne (x / 2 powi (expo x - 52))) * 2 powi (expo x - 52))"

fun add64 :: "jsnum \<Rightarrow> jsnum \<Rightarrow> jsnum" where
  "add64 (Fin a) (Fin b) = Fin (round64 (a + b))"
| "add64 a b = NaN"

fun sub64 :: "jsnum \<Rightarrow> jsnum \<Rightarrow> jsnum" where
  "sub64 (Fin a) (Fin b) = Fin (round64 (a - b))"
| "sub64 a b = NaN"

fun mul64 :: "jsnum \<Rightarrow> jsnum \<Rightarrow> jsnum" where
  "mul64 (Fin a) (Fin b) = Fin (round64 (a * b))"
| "mul64 a b = NaN"

text \<open>
  \<^verbatim>\<open>yAvg + (Math.random() - 0.5) * (yRange[1] - yRange[0]) * 0.3\<close> in double precision.
  The literal \<^verbatim>\<open>0.5\<close> is a double; the literal \<^verbatim>\<open>0.3\<close> denotes the double nearest to
  three tenths.
\<close>

definition synth_y64 :: "jsnum \<Rightarrow> jsnum \<times> jsnum \<Rightarrow> real \<Rightarrow> jsnum" where
  "synth_y64 yAvg yRange r =
     add64 yAvg
       (mul64 (mul64 (sub64 (Fin r) (Fin (5 / 10))) (sub64 (snd yRange) (fst yRange)))
              (Fin (round64 (3 / 10))))"

text \<open>The reconstruction from the summary and the dispatcher, in double precision.\<close>

definition summary_chart_data64 :: "(nat \<Rightarrow> real) \<Rightarrow> VisualizationData \<Rightarrow> row list" where
  "summary_chart_data64 random d =
     (case data_summary d of
        None \<Rightarrow> []
      | Some ds \<Rightarrow>
          (case x_data_sample ds of
             None \<Rightarrow> []
           | Some xSample \<Rightarrow>
               (let yRange = (case y_range ds of Some r \<Rightarrow> r | None \<Rightarrow> (Fin 0, Fin 100));
                    yAvg = num_or_lit (y_average ds) (Fin 50)
                in map (\<lambda>(x, idx). obj2 (xColumn_of d) x
                                        (yColumn_of d) (JNum (synth_y64 yAvg yRange (random idx))))
                       (zip xSample [0..<length xSample]))))"

definition Visualization64 ::
    "host \<Rightarrow> (nat \<Rightarrow> real) \<Rightarrow> VisualizationData option \<Rightarrow> row list option \<Rightarrow> rendering" where
  "Visualization64 h random data sqlRows =
     (case data of
        None \<Rightarrow> NoOutput
      | Some d \<Rightarrow>
          if vizType d = ''image'' \<or> truthy_str (viz_image d) then
            Wrapper (ImageVisualization d)
          else if chart_branch d sqlRows \<and> sql_chart_data h d sqlRows \<noteq> [] then
            Wrapper (ChartVisualization h d (sql_chart_data h d sqlRows))
          else if chart_branch d sqlRows \<and> summary_chart_data64 random d \<noteq> [] then
            Wrapper (ChartVisualization h d (summary_chart_data64 random d))
          else if vizType d = ''text'' \<or> truthy_str (viz_text d) then
            Wrapper (TextVisualization d)
          else NoOutput)"

section \<open>The specification's wording and the examples\<close>

text \<open>
  The pie mapping as the specification words it, with \<^verbatim>\<open>??\<close> in place of the
  \<^verbatim>\<open>||\<close> of the source: the fallback is taken for null and undefined only.
\<close>

definition nullish_or :: "js \<Rightarrow> js \<Rightarrow> js" where
  "nullish_or a b = (if nullish a then b else a)"

definition pieData_spec :: "host \<Rightarrow> string \<Rightarrow> string \<Rightarrow> row list \<Rightarrow> (string \<times> jsnum) list" where
  "pieData_spec h xColumn yColumn chartData =
     map (\<lambda>item. (to_string h (nullish_or (cell item xColumn) (JStr ''Unknown'')),
                  to_number h (nullish_or (cell item yColumn) (JNum (Fin 0))))) chartData"



text \<open>
  Parameters for the closed examples. No example depends on a conversion between
  numbers and strings, so the conversions of \<open>example_host\<close> are constant; the parser
  \<open>failing_parse\<close> rejects every text; \<open>half_random\<close> always returns one half, which
  makes the noise term zero, \<open>example_random\<close> returns \<open>0\<close>, \<open>1/2\<close> and \<open>3/4\<close>, and
  \<open>max_random\<close> always returns \<open>1 - 2^-52\<close>, the largest double below 1 that is a
  multiple of \<open>2^-52\<close>.
\<close>

definition example_host :: host where
  "example_host = \<lparr> str_to_num = (\<lambda>s. NaN), num_to_str = (\<lambda>n. []), to_fixed2 = (\<lambda>n. []) \<rparr>"

definition failing_parse :: "string \<Rightarrow> js option" where
  "failing_parse s = None"

definition half_random :: "nat \<Rightarrow> real" where
  "half_random i = 1 / 2"

definition max_random :: "nat \<Rightarrow> real" where
  "max_random i = 1 - 1 / 2 ^ 52"

definition example_random :: "nat \<Rightarrow> real" where
  "example_random i = (if i = 0 then 0 else if i = 1 then 1 / 2 else 3 / 4)"

text \<open>The visualization object, the descriptor and the rows of the round-trip example.\<close>

definition example_visualization :: js where
  "example_visualization = JObj [(''type'', JStr ''chart''), (''chart_type'', JStr ''line''),
     (''x_column'', JStr ''month''), (''y_column'', JStr ''sales''), (''title'', JStr ''Revenue'')]"

definition example_descriptor :: VisualizationData where
  "example_descriptor = \<lparr>
     viz_type = Some ''chart'', chart_type = Some ''line'', x_column = Some ''month'',
     y_column = Some ''sales'', title = Some ''Revenue'', viz_text = None, spec = None,
     data_summary = None, viz_image = None, mimeType = None \<rparr>"

definition example_rows :: "row list" where
  "example_rows = [[(''month'', JStr ''Jan''), (''sales'', JNum (Fin 10))],
                   [(''month'', JStr ''Feb''), (''sales'', JNum (Fin 20))]]"



text \<open>A typed descriptor with the same disagreement, as the renderer may be given it.\<close>

definition conflict_descriptor :: VisualizationData where
  "conflict_descriptor = \<lparr>
     viz_type = Some ''chart'', chart_type = Some ''line'', x_column = Some ''month'',
     y_column = Some ''sales'', title = Some ''Revenue'', viz_text = None,
     spec = Some \<lparr> spec_chart_type = Some ''pie'', spec_x_column = Some ''region'',
                    spec_y_column = Some ''profit'', spec_title = Some ''Legacy'' \<rparr>,
     data_summary = None, viz_image = None, mimeType = None \<rparr>"



text \<open>Pie descriptors and rows: two rows of one category, and a boolean category.\<close>

definition pie_example :: VisualizationData where
  "pie_example = \<lparr>
     viz_type = Some ''chart'', chart_type = Some ''pie'', x_column = Some ''cat'',
     y_column = Some ''v'', title = Some ''Chart'', viz_text = None, spec = None,
     data_summary = None, viz_image = None, mimeType = None \<rparr>"

definition pie_rows :: "row list" where
  "pie_rows = [[(''cat'', JStr ''A''), (''v'', JNum (Fin 5))],
               [(''cat'', JStr ''A''), (''v'', JNum (Fin 5))]]"

definition flag_rows :: "row list" where
  "flag_rows = [[(''cat'', JBool False), (''v'', JNum (Fin 5))],
                [(''cat'', JBool True), (''v'', JNum (Fin 7))]]"

text \<open>Chart descriptors without a y column, with and without a text.\<close>

definition no_column_example :: VisualizationData where
  "no_column_example = \<lparr>
     viz_type = Some ''chart'', chart_type = Some ''bar'', x_column = Some ''month'',
     y_column = None, title = Some ''Chart'', viz_text = None, spec = None,
     data_summary = None, viz_image = None, mimeType = None \<rparr>"

definition text_chart_example :: VisualizationData where
  "text_chart_example = \<lparr>
     viz_type = Some ''chart'', chart_type = Some ''bar'', x_column = Some ''month'',
     y_column = None, title = Some ''Chart'', viz_text = Some ''no data yet'', spec = None,
     data_summary = None, viz_image = None, mimeType = None \<rparr>"



text \<open>An image carried by a descriptor of type text.\<close>

definition image_example :: VisualizationData where
  "image_example = \<lparr>
     viz_type = Some ''text'', chart_type = None, x_column = None, y_column = None,
     title = None, viz_text = None, spec = None, data_summary = None,
     viz_image = Some ''abc123'', mimeType = Some ''image/png'' \<rparr>"



definition sample_only_example :: VisualizationData where
  "sample_only_example = \<lparr>
     viz_type = Some ''chart'', chart_type = Some ''bar'', x_column = None, y_column = None,
     title = Some ''Chart'', viz_text = None, spec = None,
     data_summary = Some \<lparr> x_data_sample = Some [JStr ''a'', JStr ''b''],
                            y_range = None, y_average = None, row_count = None \<rparr>,
     viz_image = None, mimeType = None \<rparr>"

text \<open>A chart type the renderer does not draw; descriptors without a type.\<close>

definition radar_example :: VisualizationData where
  "radar_example = \<lparr>
     viz_type = Some ''chart'', chart_type = Some ''radar'', x_column = Some ''month'',
     y_column = Some ''sales'', title = Some ''Revenue'', viz_text = None, spec = None,
     data_summary = None, viz_image = None, mimeType = None \<rparr>"

definition text_example :: VisualizationData where
  "text_example = \<lparr>
     viz_type = None, chart_type = None, x_column = None, y_column = None,
     title = None, viz_text = Some ''a | ###'', spec = None,
     data_summary = None, viz_image = None, mimeType = None \<rparr>"

definition blank_example :: VisualizationData where
  "blank_example = \<lparr>
     viz_type = None, chart_type = Some ''bar'', x_column = None, y_column = None,
     title = None, viz_text = None, spec = None,
     data_summary = None, viz_image = None, mimeType = None \<rparr>"

section \<open>Properties of extraction\<close>

lemmas extract_defs = extractVisualizationData_def stateViz_def state_sql_def opt_chain_def
  jor_def descriptor_def array_or_undefined_def

lemmas render_defs = Visualization_def vizType_def chart_branch_def sql_chart_data_def
  summary_chart_data_def ChartVisualization_def ImageVisualization_def TextVisualization_def
  chartType_of_def xColumn_of_def yColumn_of_def title_of_def renderChart_def footer_def
  str_or_def spec_field_def cell_def obj2_def num_or_def heading_def imageUrl_def pieData_def








section \<open>Properties of rendering\<close>

lemma extract_example:
  "extractVisualizationData parse c (JObj [(''visualization'', example_visualization)]) =
     Inr \<lparr> visualization = Some example_descriptor, sqlResult = None \<rparr>"
  by (simp add: extract_defs example_visualization_def example_descriptor_def)

lemma render_example:
  "Visualization h random (Some example_descriptor) (Some example_rows) =
     Wrapper (ChartCard ''Revenue'' (LineChart example_rows ''month'' ''sales'') None)"
  by (simp add: render_defs example_descriptor_def example_rows_def)

text \<open>
  Claim C4. Extracting from a state whose \<^verbatim>\<open>visualization\<close> is the fully populated
  line-chart object gives the descriptor with the same five fields, and rendering that
  descriptor against the two rows for Jan and Feb gives a line chart over exactly two
  data points, with y values 10 and 20, whatever the content, the parser, the host and
  the random source are.
\<close>

theorem roundtrip_line_chart:
  "extractVisualizationData parse c (JObj [(''visualization'', example_visualization)]) =
     Inr \<lparr> visualization = Some example_descriptor, sqlResult = None \<rparr>
   \<and> Visualization h random (Some example_descriptor) (Some example_rows) =
     Wrapper (ChartCard ''Revenue''
       (LineChart [[(''month'', JStr ''Jan''), (''sales'', JNum (Fin 10))],
                   [(''month'', JStr ''Feb''), (''sales'', JNum (Fin 20))]] ''month'' ''sales'')
       None)"
  using extract_example [of parse c] render_example [of h random]
  by (simp add: example_rows_def)

text \<open>The round trip with an empty content and the example parameters.\<close>

theorem roundtrip_line_chart_witness:
  "extractVisualizationData failing_parse (Text [])
     (JObj [(''visualization'', example_visualization)]) =
     Inr \<lparr> visualization = Some example_descriptor, sqlResult = None \<rparr>
   \<and> Visualization example_host half_random (Some example_descriptor) (Some example_rows) =
     Wrapper (ChartCard ''Revenue''
       (LineChart [[(''month'', JStr ''Jan''), (''sales'', JNum (Fin 10))],
                   [(''month'', JStr ''Feb''), (''sales'', JNum (Fin 20))]] ''month'' ''sales'')
       None)"
  by (rule roundtrip_line_chart)

text \<open>
  Claim C6. A descriptor with a non-empty image is rendered as an image whatever its
  type is. The URL is the image string itself when it starts with \<^verbatim>\<open>data:\<close>, and
  otherwise \<^verbatim>\<open>data:\<close>, the MIME type (\<^verbatim>\<open>image/png\<close> when none is given), \<^verbatim>\<open>;base64,\<close>
  and the image string.
\<close>

theorem image_precedence:
  assumes "viz_image d = Some img" and "img \<noteq> []"
  shows "Visualization h random (Some d) sqlRows =
           Wrapper (ImageCard (heading d)
             (if take 5 img = ''data:'' then img
              else ''data:'' @ str_or_lit (mimeType d) ''image/png'' @ '';base64,'' @ img)
             (str_or_lit (title d) ''Visualization''))"
  using assms by (simp add: Visualization_def ImageVisualization_def imageUrl_def)

text \<open>The descriptor of type text with image \<^verbatim>\<open>abc123\<close> and MIME type \<^verbatim>\<open>image/png\<close>.\<close>

theorem image_precedence_witness:
  "viz_image image_example = Some ''abc123'' \<and> ''abc123'' \<noteq> []
   \<and> viz_type image_example = Some ''text''
   \<and> Visualization example_host half_random (Some image_example) None =
       Wrapper (ImageCard None ''data:image/png;base64,abc123'' ''Visualization'')"
  using image_precedence [of image_example "''abc123''" example_host half_random None]
  by (simp add: image_example_def heading_def)

text \<open>
  Claim C10. A descriptor without a type (absent or empty), without an image, and not
  meeting the second alternative of the chart condition (a chart type together with
  non-empty rows) is handed to the text component: the text card is rendered when the
  text is non-empty, and nothing is rendered exactly when it is not.
\<close>

theorem absent_kind_is_text:
  assumes "\<not> truthy_str (viz_type d)" and "\<not> truthy_str (viz_image d)"
    and "\<not> (truthy_str (chart_type d) \<and> (\<exists>rows. sqlRows = Some rows \<and> rows \<noteq> []))"
  shows "Visualization h random (Some d) sqlRows = Wrapper (TextVisualization d)
         \<and> (\<forall>t. viz_text d = Some t \<and> t \<noteq> [] \<longrightarrow> TextVisualization d = TextCard (heading d) t)
         \<and> (renders_nothing (Visualization h random (Some d) sqlRows)
              = (\<not> truthy_str (viz_text d)))"
proof -
  from assms(1) have vt: "vizType d = ''text''"
    by (cases "viz_type d") (simp_all add: vizType_def)
  from assms(3) have nb: "\<not> chart_branch d sqlRows"
    by (cases sqlRows) (auto simp: chart_branch_def vt)
  from vt nb assms(2) have 1: "Visualization h random (Some d) sqlRows = Wrapper (TextVisualization d)"
    by (simp add: Visualization_def)
  have 2: "\<forall>t. viz_text d = Some t \<and> t \<noteq> [] \<longrightarrow> TextVisualization d = TextCard (heading d) t"
    by (simp add: TextVisualization_def)
  have 3: "(TextVisualization d = Null) = (\<not> truthy_str (viz_text d))"
    by (cases "viz_text d") (simp_all add: TextVisualization_def)
  from 1 2 3 show ?thesis by (simp add: renders_nothing_def)
qed

text \<open>
  Two descriptors without a type: one with a text and no rows, one with a chart type,
  no rows and no text.
\<close>

theorem absent_kind_is_text_witness:
  "\<not> truthy_str (viz_type text_example) \<and> \<not> truthy_str (viz_image text_example)
   \<and> Visualization example_host half_random (Some text_example) None =
       Wrapper (TextCard None ''a | ###'')
   \<and> \<not> truthy_str (viz_type blank_example) \<and> \<not> truthy_str (viz_image blank_example)
   \<and> truthy_str (chart_type blank_example)
   \<and> Visualization example_host half_random (Some blank_example) (Some []) = Wrapper Null
   \<and> renders_nothing (Visualization example_host half_random (Some blank_example) (Some []))"
proof -
  have a: "\<not> truthy_str (viz_type text_example)" "\<not> truthy_str (viz_image text_example)"
    "\<not> (truthy_str (chart_type text_example)
        \<and> (\<exists>rows. (None :: row list option) = Some rows \<and> rows \<noteq> []))"
    by (simp_all add: text_example_def)
  have b: "\<not> truthy_str (viz_type blank_example)" "\<not> truthy_str (viz_image blank_example)"
    "\<not> (truthy_str (chart_type blank_example)
        \<and> (\<exists>rows. Some ([] :: row list) = Some rows \<and> rows \<noteq> []))"
    "truthy_str (chart_type blank_example)"
    by (simp_all add: blank_example_def)
  note t1 = absent_kind_is_text [OF a, of example_host half_random]
  note t2 = absent_kind_is_text [OF b(1,2,3), of example_host half_random]
  have v: "viz_text text_example = Some ''a | ###''" "heading text_example = None"
    "\<not> truthy_str (viz_text blank_example)"
    by (simp_all add: text_example_def blank_example_def heading_def)
  from t1 [THEN conjunct1] have 1:
    "Visualization example_host half_random (Some text_example) None =
       Wrapper (TextCard None ''a | ###'')"
    by (simp add: TextVisualization_def text_example_def heading_def)
  from t2 [THEN conjunct2, THEN conjunct2] v(3) have 2: "renders_nothing
      (Visualization example_host half_random (Some blank_example) (Some []))"
    by simp
  from t2 [THEN conjunct1] have 3:
    "Visualization example_host half_random (Some blank_example) (Some []) = Wrapper Null"
    by (simp add: TextVisualization_def blank_example_def)
  from a b 1 2 3 show ?thesis by simp
qed

text \<open>
  Claim C8. For a descriptor of type chart, without an image, whose chart type as the
  renderer resolves it is none of bar, line, pie and scatter, and for which the table
  rows or the summary give at least one data point, the result is the chart card holding
  the placeholder for the unsupported chart type, which names that type.
\<close>

theorem unsupported_chart_type:
  assumes "viz_type d = Some ''chart''" and "\<not> truthy_str (viz_image d)"
    and "chartType_of d = ct"
    and "ct \<notin> {''bar'', ''line'', ''pie'', ''scatter''}"
    and "sql_chart_data h d sqlRows \<noteq> [] \<or> summary_chart_data random d \<noteq> []"
  shows "\<exists>pts. pts \<noteq> [] \<and> Visualization h random (Some d) sqlRows =
           Wrapper (ChartCard (title_of d) (Unsupported ct) (footer h d pts))"
proof -
  from assms(1) have vt: "vizType d = ''chart''" by (simp add: vizType_def)
  have un: "renderChart h ct xc yc pts = Unsupported ct" for xc yc pts
    using assms(4) by (simp add: renderChart_def)
  show ?thesis
  proof (cases "sql_chart_data h d sqlRows = []")
    case False
    with vt assms(2,3) un show ?thesis
      by (intro exI [of _ "sql_chart_data h d sqlRows"])
         (simp add: Visualization_def chart_branch_def ChartVisualization_def)
  next
    case True
    with assms(5) have "summary_chart_data random d \<noteq> []" by simp
    with True vt assms(2,3) un show ?thesis
      by (intro exI [of _ "summary_chart_data random d"])
         (simp add: Visualization_def chart_branch_def ChartVisualization_def)
  qed
qed

text \<open>The chart type \<^verbatim>\<open>radar\<close> on the descriptor and rows of the round-trip example.\<close>

theorem unsupported_chart_type_witness:
  "viz_type radar_example = Some ''chart'' \<and> \<not> truthy_str (viz_image radar_example)
   \<and> chart_type radar_example = Some ''radar'' \<and> chartType_of radar_example = ''radar''
   \<and> sql_chart_data example_host radar_example (Some example_rows) \<noteq> []
   \<and> Visualization example_host half_random (Some radar_example) (Some example_rows) =
       Wrapper (ChartCard ''Revenue'' (Unsupported ''radar'') None)"
proof -
  have a: "viz_type radar_example = Some ''chart''"
    and b: "\<not> truthy_str (viz_image radar_example)"
    and c: "chart_type radar_example = Some ''radar''"
    and c': "chartType_of radar_example = ''radar''"
    and f: "''radar'' \<notin> {''bar'', ''line'', ''pie'', ''scatter''}"
    by (simp_all add: radar_example_def chartType_of_def str_or_def)
  have g: "sql_chart_data example_host radar_example (Some example_rows) \<noteq> []"
    by (simp add: sql_chart_data_def str_or_def radar_example_def example_rows_def cell_def)
  then have g': "sql_chart_data example_host radar_example (Some example_rows) \<noteq> []
      \<or> summary_chart_data half_random radar_example \<noteq> []"
    by simp
  have h: "title_of radar_example = ''Revenue''" "footer example_host radar_example pts = None" for pts
    by (simp_all add: title_of_def str_or_def footer_def radar_example_def)
  from unsupported_chart_type [OF a b c' f g'] a b c c' g h show ?thesis by simp
qed

section \<open>Field resolution\<close>




section \<open>Chart data\<close>

lemma unresolved_column_no_rows:
  "\<not> truthy_str (str_or (x_column d) (spec_field spec_x_column d))
     \<or> \<not> truthy_str (str_or (y_column d) (spec_field spec_y_column d))
   \<Longrightarrow> sql_chart_data h d sqlRows = []"
  by (auto simp: sql_chart_data_def split: option.splits)

lemma no_summary_no_rows: "data_summary d = None \<Longrightarrow> summary_chart_data random d = []"
  by (simp add: summary_chart_data_def)

text \<open>
  Claim C3 as stated fails. A descriptor of type chart without a y column and without a
  summary, given two rows, yields no chart data from either fallback; as it has a text,
  the dispatcher goes on to the text test and renders the text card.
\<close>

theorem empty_chart_counterexample:
  "viz_type text_chart_example = Some ''chart''
   \<and> y_column text_chart_example = None
   \<and> data_summary text_chart_example = None
   \<and> sql_chart_data example_host text_chart_example (Some example_rows) = []
   \<and> summary_chart_data half_random text_chart_example = []
   \<and> Visualization example_host half_random (Some text_chart_example) (Some example_rows) =
       Wrapper (TextCard (Some ''Chart'') ''no data yet'')
   \<and> \<not> renders_nothing
         (Visualization example_host half_random (Some text_chart_example) (Some example_rows))"
  by (simp add: render_defs text_chart_example_def example_rows_def renders_nothing_def)

text \<open>
  Claim C3, amended. For a descriptor of type chart without an image for which both
  chart-data fallbacks yield no rows, no chart is rendered and the dispatcher goes on to
  the text test: it returns the text component when the text is non-empty and null
  otherwise, so nothing is rendered exactly when the text is empty or absent. An
  unresolved x or y column empties the first fallback and an absent summary the second
  (\<open>unresolved_column_no_rows\<close>, \<open>no_summary_no_rows\<close>).
\<close>

theorem empty_chart_falls_to_text:
  assumes "viz_type d = Some ''chart''" and "\<not> truthy_str (viz_image d)"
    and "sql_chart_data h d sqlRows = []" and "summary_chart_data random d = []"
  shows "Visualization h random (Some d) sqlRows =
           (if truthy_str (viz_text d) then Wrapper (TextVisualization d) else NoOutput)
         \<and> (renders_nothing (Visualization h random (Some d) sqlRows)
              = (\<not> truthy_str (viz_text d)))"
proof -
  from assms(1) have vt: "vizType d = ''chart''" by (simp add: vizType_def)
  have tv: "truthy_str (viz_text d) \<Longrightarrow> TextVisualization d \<noteq> Null"
    by (cases "viz_text d") (simp_all add: TextVisualization_def)
  from vt assms(2,3,4) have
    "Visualization h random (Some d) sqlRows =
       (if truthy_str (viz_text d) then Wrapper (TextVisualization d) else NoOutput)"
    by (simp add: Visualization_def)
  with tv show ?thesis by (simp add: renders_nothing_def)
qed

text \<open>The chart descriptor without a y column and without a text, given the two rows.\<close>

theorem empty_chart_falls_to_text_witness:
  "viz_type no_column_example = Some ''chart'' \<and> \<not> truthy_str (viz_image no_column_example)
   \<and> sql_chart_data example_host no_column_example (Some example_rows) = []
   \<and> summary_chart_data half_random no_column_example = []
   \<and> Visualization example_host half_random (Some no_column_example) (Some example_rows) = NoOutput
   \<and> renders_nothing
        (Visualization example_host half_random (Some no_column_example) (Some example_rows))"
proof -
  have a: "viz_type no_column_example = Some ''chart''"
    and b: "\<not> truthy_str (viz_image no_column_example)"
    and t: "\<not> truthy_str (viz_text no_column_example)"
    by (simp_all add: no_column_example_def)
  have c: "sql_chart_data example_host no_column_example (Some example_rows) = []"
    by (rule unresolved_column_no_rows)
       (simp add: no_column_example_def str_or_def spec_field_def)
  have e: "summary_chart_data half_random no_column_example = []"
    by (rule no_summary_no_rows) (simp add: no_column_example_def)
  from empty_chart_falls_to_text [OF a b c e] a b c e t show ?thesis
    by (simp add: renders_nothing_def)
qed

section \<open>Pie charts\<close>

text \<open>
  Claim C2 as stated fails. A row whose category is the boolean false passes the row
  filter, and its slice is named \<^verbatim>\<open>Unknown\<close>, where the mapping with \<^verbatim>\<open>??\<close> would name
  it \<^verbatim>\<open>false\<close>.
\<close>

theorem pie_fallback_counterexample:
  "Visualization example_host half_random (Some pie_example) (Some flag_rows) =
     Wrapper (ChartCard ''Chart'' (PieChart [(''Unknown'', Fin 5), (''true'', Fin 7)]) None)
   \<and> pieData_spec example_host ''cat'' ''v'' flag_rows = [(''false'', Fin 5), (''true'', Fin 7)]"
  by (simp add: render_defs jor_def pie_example_def flag_rows_def pieData_spec_def nullish_or_def)

text \<open>
  Claim C2, amended. For a pie chart every row of the chart data is mapped, in order, to
  exactly one slice: its name is \<^verbatim>\<open>String\<close> of the x value, or of \<^verbatim>\<open>"Unknown"\<close> when the x
  value is falsy, and its value is \<^verbatim>\<open>Number\<close> of the y value, or of \<^verbatim>\<open>0\<close> when the y value
  is falsy. Rows with equal names are neither grouped nor summed.
\<close>

theorem pie_one_slice_per_row:
  assumes "chartType_of d = ''pie''" and "chartData \<noteq> []"
  shows "ChartVisualization h d chartData =
           ChartCard (title_of d)
             (PieChart (map (\<lambda>item.
                (to_string h (if truthy (cell item (xColumn_of d))
                              then cell item (xColumn_of d) else JStr ''Unknown''),
                 to_number h (if truthy (cell item (yColumn_of d))
                              then cell item (yColumn_of d) else JNum (Fin 0)))) chartData))
             (footer h d chartData)"
  using assms by (simp add: ChartVisualization_def renderChart_def pieData_def jor_def)

text \<open>Two rows of category A with value 5: two slices named A, each of value 5.\<close>

theorem pie_one_slice_per_row_witness:
  "chartType_of pie_example = ''pie'' \<and> pie_rows \<noteq> []
   \<and> ChartVisualization example_host pie_example pie_rows =
       ChartCard ''Chart'' (PieChart [(''A'', Fin 5), (''A'', Fin 5)]) None"
proof -
  have a: "chartType_of pie_example = ''pie''"
    by (simp add: chartType_of_def str_or_def pie_example_def)
  have b: "pie_rows \<noteq> []" by (simp add: pie_rows_def)
  have c: "title_of pie_example = ''Chart''" "xColumn_of pie_example = ''cat''"
    "yColumn_of pie_example = ''v''" "footer example_host pie_example pie_rows = None"
    by (simp_all add: title_of_def xColumn_of_def yColumn_of_def footer_def str_or_def
          pie_example_def)
  from pie_one_slice_per_row [OF a b, of example_host] a b c show ?thesis
    by (simp add: pie_rows_def cell_def)
qed

text \<open>The same rows through the dispatcher.\<close>

lemma pie_rows_rendered:
  "Visualization h random (Some pie_example) (Some pie_rows) =
     Wrapper (ChartCard ''Chart'' (PieChart [(''A'', Fin 5), (''A'', Fin 5)]) None)"
  by (simp add: render_defs jor_def pie_example_def pie_rows_def)

section \<open>Reconstruction from the summary\<close>

lemma cell_obj2_second: "cell (obj2 k1 v1 k2 v2) k2 = v2"
  by (simp add: cell_def obj2_def)










section \<open>Double-precision rounding\<close>

text \<open>
  Rounding to the nearest integer is monotone, odd and leaves integers unchanged; the
  exponent brackets its argument between two powers of two and is the only exponent to
  do so.
\<close>

lemma rne_cases: "rne x = \<lfloor>x\<rfloor> \<or> rne x = \<lfloor>x\<rfloor> + 1"
  by (simp add: rne_def Let_def)

lemma rne_of_int: "rne (of_int n) = n"
  by (simp add: rne_def)

lemma rne_mono:
  assumes "x \<le> y"
  shows "rne x \<le> rne y"
proof (cases "\<lfloor>x\<rfloor> < \<lfloor>y\<rfloor>")
  case True
  have "rne x \<le> \<lfloor>x\<rfloor> + 1" using rne_cases [of x] by auto
  moreover have "\<lfloor>y\<rfloor> \<le> rne y" using rne_cases [of y] by auto
  ultimately show ?thesis using True by linarith
next
  case False
  with floor_mono [OF assms] have eq: "\<lfloor>x\<rfloor> = \<lfloor>y\<rfloor>" by linarith
  with assms have "x - of_int \<lfloor>x\<rfloor> \<le> y - of_int \<lfloor>y\<rfloor>" by simp
  with eq show ?thesis
    unfolding rne_def Let_def by auto
qed

lemma rne_minus: "rne (- x) = - rne x"
proof (cases "x = of_int \<lfloor>x\<rfloor>")
  case True
  then obtain n where "x = of_int n" ..
  then have "- x = of_int (- n)" by simp
  with \<open>x = of_int n\<close> show ?thesis by (simp only: rne_of_int)
next
  case False
  then have "\<lfloor>- x\<rfloor> = - \<lfloor>x\<rfloor> - 1"
    by (simp add: floor_minus ceiling_altdef)
  then show ?thesis
    unfolding rne_def Let_def by auto
qed

lemma expo_bounds:
  assumes "x \<noteq> 0"
  shows "2 powi expo x \<le> \<bar>x\<bar> \<and> \<bar>x\<bar> < 2 powi (expo x + 1)"
proof (cases "1 \<le> \<bar>x\<bar>")
  case True
  define n where "n = \<lfloor>\<bar>x\<bar>\<rfloor>"
  define b where "b = bitlen n"
  from True have n: "0 < n" by (simp add: n_def)
  then have b: "1 \<le> b"
    using bitlen_nonneg [of n] bitlen_eq_zero_iff [of n] by (simp add: b_def)
  from bitlen_bounds [OF n] have lo: "2 ^ nat (b - 1) \<le> n" and hi: "n < 2 ^ nat b"
    by (simp_all add: b_def)
  from True have e: "expo x = b - 1" by (simp add: expo_def n_def b_def)
  from b have p1: "(2::real) powi (b - 1) = 2 ^ nat (b - 1)"
    and p2: "(2::real) powi b = 2 ^ nat b"
    by (simp_all add: power_int_def)
  have "real_of_int (2 ^ nat (b - 1)) \<le> real_of_int n"
    using lo by (simp only: of_int_le_iff)
  also have "real_of_int n \<le> \<bar>x\<bar>" by (simp add: n_def)
  finally have 1: "2 powi (b - 1) \<le> \<bar>x\<bar>" by (simp add: p1)
  from hi have "n + 1 \<le> 2 ^ nat b" by simp
  then have "real_of_int (n + 1) \<le> real_of_int (2 ^ nat b)"
    by (simp only: of_int_le_iff)
  moreover have "\<bar>x\<bar> < real_of_int (n + 1)" by (simp add: n_def)
  ultimately have 2: "\<bar>x\<bar> < 2 powi b" by (simp add: p2)
  from 1 2 e show ?thesis by simp
next
  case False
  define y where "y = 1 / \<bar>x\<bar>"
  define m where "m = \<lceil>y\<rceil> - 1"
  define j where "j = bitlen m"
  from False assms have x: "0 < \<bar>x\<bar>" "\<bar>x\<bar> < 1" by simp_all
  then have y: "1 < y" by (simp add: y_def)
  then have "1 < \<lceil>y\<rceil>" by (simp add: less_ceiling_iff)
  then have m: "0 < m" by (simp add: m_def)
  then have j: "1 \<le> j"
    using bitlen_nonneg [of m] bitlen_eq_zero_iff [of m] by (simp add: j_def)
  from bitlen_bounds [OF m] have lo: "2 ^ nat (j - 1) \<le> m" and hi: "m < 2 ^ nat j"
    by (simp_all add: j_def)
  from False have e: "expo x = - j" by (simp add: expo_def y_def m_def j_def)
  have my: "real_of_int m < y" "y \<le> real_of_int m + 1"
    by (simp_all add: m_def) linarith+
  from hi have "m + 1 \<le> 2 ^ nat j" by simp
  then have "real_of_int (m + 1) \<le> real_of_int (2 ^ nat j)"
    by (simp only: of_int_le_iff)
  with my have yhi: "y \<le> 2 ^ nat j" by simp
  have "real_of_int (2 ^ nat (j - 1)) \<le> real_of_int m"
    using lo by (simp only: of_int_le_iff)
  then have "(2::real) ^ nat (j - 1) \<le> real_of_int m" by simp
  with my have ylo: "2 ^ nat (j - 1) < y" by linarith
  from j have p1: "(2::real) powi (- j) = 1 / 2 ^ nat j"
    and p2: "(2::real) powi (- j + 1) = 1 / 2 ^ nat (j - 1)"
    by (simp_all add: power_int_def field_simps nat_diff_distrib)
  from yhi x have 1: "1 / 2 ^ nat j \<le> \<bar>x\<bar>"
    by (simp add: y_def field_simps)
  from ylo x have 2: "\<bar>x\<bar> < 1 / 2 ^ nat (j - 1)"
    by (simp add: y_def field_simps)
  from 1 2 e p1 p2 show ?thesis by simp
qed

lemma binade_nonzero:
  assumes "2 powi k \<le> \<bar>x::real\<bar>"
  shows "x \<noteq> 0"
proof -
  have "0 < (2::real) powi k" by simp
  with assms have "0 < \<bar>x\<bar>" by linarith
  then show ?thesis by simp
qed

lemma expo_unique:
  assumes "2 powi k \<le> \<bar>x\<bar>" and "\<bar>x\<bar> < 2 powi (k + 1)"
  shows "expo x = k"
proof -
  from assms(1) have nz: "x \<noteq> 0" by (rule binade_nonzero)
  note b = expo_bounds [OF nz]
  have "\<not> k < expo x"
  proof
    assume "k < expo x"
    then have "(2::real) powi (k + 1) \<le> 2 powi expo x"
      by (intro power_int_increasing) simp_all
    with b assms(2) show False by linarith
  qed
  moreover have "\<not> expo x < k"
  proof
    assume "expo x < k"
    then have "(2::real) powi (expo x + 1) \<le> 2 powi k"
      by (intro power_int_increasing) simp_all
    with b assms(1) show False by linarith
  qed
  ultimately show ?thesis by simp
qed

lemma expo_minus: "expo (- x) = expo x"
  by (simp add: expo_def)

lemma expo_mono:
  assumes "0 < x" and "x \<le> y"
  shows "expo x \<le> expo y"
proof (rule ccontr)
  assume "\<not> expo x \<le> expo y"
  then have "(2::real) powi (expo y + 1) \<le> 2 powi expo x"
    by (intro power_int_increasing) simp_all
  moreover from assms have "x \<noteq> 0" "y \<noteq> 0" by simp_all
  note expo_bounds [OF this(1)] expo_bounds [OF this(2)]
  ultimately show False using assms by simp
qed

lemma round64_minus: "round64 (- x) = - round64 x"
  by (simp add: round64_def expo_minus rne_minus)

lemma round64_pos_bounds:
  assumes "0 < x"
  shows "2 powi expo x \<le> round64 x" and "round64 x \<le> 2 powi (expo x + 1)"
proof -
  define u :: real where "u = 2 powi (expo x - 52)"
  have u: "0 < u" by (simp add: u_def)
  from assms have nz: "x \<noteq> 0" by simp
  from expo_bounds [OF nz] assms
  have b: "2 powi expo x \<le> x" "x < 2 powi (expo x + 1)" by simp_all
  have s1: "(2::real) powi expo x = of_int (2 ^ 52) * u"
    and s2: "(2::real) powi (expo x + 1) = of_int (2 ^ 53) * u"
    by (simp_all add: u_def power_int_diff power_int_add)
  from b(1) have "of_int (2 ^ 52) * u \<le> x" by (simp only: s1)
  with u have "of_int (2 ^ 52) \<le> x / u" by (simp only: pos_le_divide_eq)
  then have "rne (of_int (2 ^ 52)) \<le> rne (x / u)" by (rule rne_mono)
  then have l: "2 ^ 52 \<le> rne (x / u)" by (simp only: rne_of_int)
  from b(2) have "x \<le> of_int (2 ^ 53) * u" by (simp only: s2)
  with u have "x / u \<le> of_int (2 ^ 53)" by (simp only: pos_divide_le_eq)
  then have "rne (x / u) \<le> rne (of_int (2 ^ 53))" by (rule rne_mono)
  then have h: "rne (x / u) \<le> 2 ^ 53" by (simp only: rne_of_int)
  have r: "round64 x = of_int (rne (x / u)) * u"
    using nz by (simp add: round64_def u_def)
  from l have "real_of_int (2 ^ 52) \<le> real_of_int (rne (x / u))"
    by (simp only: of_int_le_iff)
  with u show "2 powi expo x \<le> round64 x"
    by (simp only: r s1 mult_le_cancel_right_pos)
  from h have "real_of_int (rne (x / u)) \<le> real_of_int (2 ^ 53)"
    by (simp only: of_int_le_iff)
  with u show "round64 x \<le> 2 powi (expo x + 1)"
    by (simp only: r s2 mult_le_cancel_right_pos)
qed

lemma round64_mono_pos:
  assumes "0 < x" and "x \<le> y"
  shows "round64 x \<le> round64 y"
proof (cases "expo x = expo y")
  case True
  define u :: real where "u = 2 powi (expo x - 52)"
  have u: "0 < u" by (simp add: u_def)
  from assms u have "x / u \<le> y / u" by (simp add: divide_right_mono)
  then have "rne (x / u) \<le> rne (y / u)" by (rule rne_mono)
  then have "real_of_int (rne (x / u)) * u \<le> real_of_int (rne (y / u)) * u"
    using u by simp
  with assms True show ?thesis by (simp add: round64_def u_def)
next
  case False
  with expo_mono [OF assms] have "expo x + 1 \<le> expo y" by simp
  then have "(2::real) powi (expo x + 1) \<le> 2 powi expo y"
    by (intro power_int_increasing) simp_all
  moreover from assms have "0 < y" by simp
  note round64_pos_bounds(2) [OF assms(1)] round64_pos_bounds(1) [OF this]
  ultimately show ?thesis by linarith
qed

lemma round64_pos: "0 < x \<Longrightarrow> 0 < round64 x"
  using round64_pos_bounds(1) [of x] zero_less_power_int [of "2::real" "expo x"] by linarith

lemma round64_mono:
  assumes "x \<le> y"
  shows "round64 x \<le> round64 y"
proof -
  consider "0 < x" | "x = 0" "y = 0" | "x = 0" "0 < y" | "x < 0" "y < 0" | "x < 0" "y = 0"
    | "x < 0" "0 < y"
    using assms by linarith
  then show ?thesis
  proof cases
    case 1
    then show ?thesis using assms by (rule round64_mono_pos)
  next
    case 2
    then show ?thesis by simp
  next
    case 3
    then show ?thesis using round64_pos [of y] by (simp add: round64_def)
  next
    case 4
    then have "0 < - y" "- y \<le> - x" using assms by simp_all
    then have "round64 (- y) \<le> round64 (- x)" by (rule round64_mono_pos)
    then show ?thesis by (simp add: round64_minus)
  next
    case 5
    then have "0 < round64 (- x)" by (intro round64_pos) simp
    then have "round64 x < 0" by (simp add: round64_minus)
    moreover from 5 have "round64 y = 0" by (simp add: round64_def)
    ultimately show ?thesis by simp
  next
    case 6
    then have "0 < round64 (- x)" "0 < round64 y" by (simp_all add: round64_pos)
    then show ?thesis by (simp add: round64_minus)
  qed
qed

lemma rne_near:
  assumes "\<bar>q - of_int m\<bar> < 1 / 2"
  shows "rne q = m"
proof -
  have "\<lfloor>q\<rfloor> = m \<or> \<lfloor>q\<rfloor> = m - 1" using assms by linarith
  then show ?thesis
    using assms unfolding rne_def Let_def by (auto; linarith)
qed

lemma round64_exact:
  assumes "2 powi k \<le> \<bar>x\<bar>" and "\<bar>x\<bar> < 2 powi (k + 1)"
    and "x / 2 powi (k - 52) = of_int m"
  shows "round64 x = x"
proof -
  from assms(1) have nz: "x \<noteq> 0" by (rule binade_nonzero)
  have e: "expo x = k" using assms(1,2) by (rule expo_unique)
  have "round64 x = of_int (rne (of_int m)) * 2 powi (k - 52)"
    using nz by (simp add: round64_def e assms(3))
  also have "\<dots> = x / 2 powi (k - 52) * 2 powi (k - 52)"
    by (simp only: rne_of_int assms(3))
  also have "\<dots> = x" by simp
  finally show ?thesis .
qed

lemma round64_near:
  assumes "2 powi k \<le> \<bar>x\<bar>" and "\<bar>x\<bar> < 2 powi (k + 1)"
    and "\<bar>x / 2 powi (k - 52) - of_int m\<bar> < 1 / 2"
  shows "round64 x = of_int m * 2 powi (k - 52)"
proof -
  from assms(1) have nz: "x \<noteq> 0" by (rule binade_nonzero)
  have e: "expo x = k" using assms(1,2) by (rule expo_unique)
  from assms(3) have "rne (x / 2 powi (k - 52)) = m" by (rule rne_near)
  with nz show ?thesis by (simp add: round64_def e)
qed

lemma round64_half: "round64 (1 / 2) = 1 / 2"
  by (rule round64_exact [where k = "- 1" and m = "2 ^ 52"]) simp_all

lemma round64_100: "round64 100 = 100"
  by (rule round64_exact [where k = 6 and m = "100 * 2 ^ 46"]) simp_all

lemma round64_50: "round64 50 = 50"
  by (rule round64_exact [where k = 5 and m = "50 * 2 ^ 47"]) simp_all

lemma round64_15: "round64 15 = 15"
  by (rule round64_exact [where k = 3 and m = "15 * 2 ^ 49"]) simp_all

lemma round64_35: "round64 35 = 35"
  by (rule round64_exact [where k = 5 and m = "35 * 2 ^ 47"]) simp_all

lemma round64_65: "round64 65 = 65"
  by (rule round64_exact [where k = 6 and m = "65 * 2 ^ 46"]) simp_all

lemma round64_three_tenths: "round64 (3 / 10) = 5404319552844595 / 2 ^ 54"
  using round64_near [where k = "- 2" and m = 5404319552844595 and x = "3 / 10"] by simp

lemma round64_zero: "round64 0 = 0"
  by (simp add: round64_def)

lemma rne_tie: "rne (of_int f + 1 / 2) = (if even f then f else f + 1)"
proof -
  have "\<lfloor>real_of_int f + 1 / 2\<rfloor> = f" by linarith
  then show ?thesis by (simp add: rne_def)
qed

lemma round64_tie_odd:
  assumes "2 powi k \<le> \<bar>x\<bar>" and "\<bar>x\<bar> < 2 powi (k + 1)"
    and "x / 2 powi (k - 52) = of_int f + 1 / 2" and "odd f"
  shows "round64 x = of_int (f + 1) * 2 powi (k - 52)"
proof -
  from assms(1) have nz: "x \<noteq> 0" by (rule binade_nonzero)
  have e: "expo x = k" using assms(1,2) by (rule expo_unique)
  from assms(4) have "rne (of_int f + 1 / 2) = f + 1" by (simp only: rne_tie if_False)
  with nz show ?thesis by (simp add: round64_def e assms(3))
qed

text \<open>The four roundings of the source expression at the random value \<open>1 - 2^-52\<close>.\<close>

lemma max_noise: "round64 (1 - 1 / 2 ^ 52 - 1 / 2) = 2251799813685247 / 4503599627370496"
  using round64_exact [where k = "- 2" and m = 9007199254740988
      and x = "1 - 1 / 2 ^ 52 - 1 / 2"]
  by simp

lemma max_scaled:
  "round64 (2251799813685247 / 4503599627370496 * 100) = 7036874417766397 / 140737488355328"
  using round64_near [where k = 5 and m = 7036874417766397
      and x = "2251799813685247 / 4503599627370496 * 100"]
  by simp

lemma max_term:
  "round64 (7036874417766397 / 140737488355328 * (5404319552844595 / 2 ^ 54))
     = 2111062325329919 / 140737488355328"
  using round64_near [where k = 3 and m = 8444249301319676
      and x = "7036874417766397 / 140737488355328 * (5404319552844595 / 2 ^ 54)"]
  by simp

lemma max_sum: "round64 (50 + 2111062325329919 / 140737488355328) = 65"
  using round64_tie_odd [where k = 6 and f = 4573968371548159
      and x = "50 + 2111062325329919 / 140737488355328"]
  by simp

lemma min_term: "round64 (- 50 * (5404319552844595 / 2 ^ 54)) = - 15"
  using round64_near [where k = 3 and m = "- 8444249301319680"
      and x = "- 50 * (5404319552844595 / 2 ^ 54)"]
  by simp

text \<open>The source expression with the default range and average, for a random value in \<open>[0, 1)\<close>.\<close>

lemma synth_y64_default:
  "synth_y64 (Fin 50) (Fin 0, Fin 100) r =
     Fin (round64 (50 + round64 (round64 (round64 (r - 1 / 2) * 100) * round64 (3 / 10))))"
  by (simp add: synth_y64_def round64_100)

lemma default_bounds:
  assumes "0 \<le> r" and "r < 1"
  shows "35 \<le> round64 (50 + round64 (round64 (round64 (r - 1 / 2) * 100) * round64 (3 / 10)))"
    and "round64 (50 + round64 (round64 (round64 (r - 1 / 2) * 100) * round64 (3 / 10))) \<le> 65"
proof -
  define s where "s = round64 (r - 1 / 2)"
  define m where "m = round64 (s * 100)"
  define c :: real where "c = 5404319552844595 / 2 ^ 54"
  define t where "t = round64 (m * c)"
  have c: "0 < c" "c * 50 \<le> 15" by (simp_all add: c_def)
  from assms have "round64 (- (1 / 2)) \<le> s" "s \<le> round64 (1 / 2)"
    unfolding s_def by (intro round64_mono; simp)+
  then have s: "- (1 / 2) \<le> s" "s \<le> 1 / 2"
    by (simp_all add: round64_minus round64_half)
  then have "round64 (- 50) \<le> m" "m \<le> round64 50"
    unfolding m_def by (intro round64_mono; simp)+
  then have m: "- 50 \<le> m" "m \<le> 50"
    by (simp_all add: round64_minus round64_50)
  from m c(1) have "m * c \<le> 50 * c" "(- 50) * c \<le> m * c"
    by (simp_all only: mult_le_cancel_right_pos)
  with c(2) have "- 15 \<le> m * c" "m * c \<le> 15" by linarith+
  then have "round64 (- 15) \<le> t" "t \<le> round64 15"
    unfolding t_def by (intro round64_mono; simp)+
  then have t: "- 15 \<le> t" "t \<le> 15"
    by (simp_all add: round64_minus round64_15)
  then have "round64 35 \<le> round64 (50 + t)" "round64 (50 + t) \<le> round64 65"
    by (intro round64_mono; simp)+
  then have "35 \<le> round64 (50 + t)" "round64 (50 + t) \<le> 65"
    by (simp_all only: round64_35 round64_65)
  then show
    "35 \<le> round64 (50 + round64 (round64 (round64 (r - 1 / 2) * 100) * round64 (3 / 10)))"
    "round64 (50 + round64 (round64 (round64 (r - 1 / 2) * 100) * round64 (3 / 10))) \<le> 65"
    by (simp_all only: t_def m_def s_def c_def round64_three_tenths)
qed

text \<open>One point for each sample value, and the dispatcher on the second fallback.\<close>

lemma summary_chart_data64_length:
  "data_summary d = Some ds \<Longrightarrow> x_data_sample ds = Some xs \<Longrightarrow>
   length (summary_chart_data64 random d) = length xs"
  by (simp add: summary_chart_data64_def Let_def)

lemma summary_chart_data64_nth:
  "data_summary d = Some ds \<Longrightarrow> x_data_sample ds = Some xs \<Longrightarrow> i < length xs \<Longrightarrow>
   summary_chart_data64 random d ! i =
     obj2 (xColumn_of d) (xs ! i) (yColumn_of d)
       (JNum (synth_y64 (num_or_lit (y_average ds) (Fin 50))
                (case y_range ds of Some r \<Rightarrow> r | None \<Rightarrow> (Fin 0, Fin 100)) (random i)))"
  by (simp add: summary_chart_data64_def Let_def)

lemma Visualization64_summary:
  assumes "chart_branch d sqlRows" and "vizType d \<noteq> ''image''" and "\<not> truthy_str (viz_image d)"
    and "sql_chart_data h d sqlRows = []" and "summary_chart_data64 random d \<noteq> []"
  shows "Visualization64 h random (Some d) sqlRows =
           Wrapper (ChartCard (title_of d)
             (renderChart h (chartType_of d) (xColumn_of d) (yColumn_of d)
                (summary_chart_data64 random d))
             (footer h d (summary_chart_data64 random d)))"
  using assms by (simp add: Visualization64_def ChartVisualization_def)

text \<open>
  Claim C9 as stated fails. With a summary that holds only a sample, the default range
  and average are used, and at the random value \<open>1 - 2^-52\<close>, which lies in \<open>[0, 1)\<close>,
  the double-precision value of \<^verbatim>\<open>50 + (random - 0.5) * 100 * 0.3\<close> is exactly 65, which
  is not within \<open>[35, 65)\<close>.
\<close>

theorem summary_bound_counterexample:
  "0 \<le> max_random 0 \<and> max_random 0 < 1
   \<and> sql_chart_data example_host sample_only_example None = []
   \<and> summary_chart_data64 max_random sample_only_example
       = [[(''x'', JStr ''a''), (''y'', JNum (Fin 65))], [(''x'', JStr ''b''), (''y'', JNum (Fin 65))]]
   \<and> Visualization64 example_host max_random (Some sample_only_example) None =
       Wrapper (ChartVisualization example_host sample_only_example
                  [[(''x'', JStr ''a''), (''y'', JNum (Fin 65))],
                   [(''x'', JStr ''b''), (''y'', JNum (Fin 65))]])
   \<and> \<not> ((65::real) < 65)"
proof -
  have y: "synth_y64 (Fin 50) (Fin 0, Fin 100) (max_random i) = Fin 65" for i
    by (simp only: synth_y64_default max_random_def max_noise max_scaled
          round64_three_tenths max_term max_sum)
  have pts: "summary_chart_data64 max_random sample_only_example
       = [[(''x'', JStr ''a''), (''y'', JNum (Fin 65))], [(''x'', JStr ''b''), (''y'', JNum (Fin 65))]]"
    by (simp add: summary_chart_data64_def sample_only_example_def y xColumn_of_def
          yColumn_of_def str_or_def spec_field_def obj2_def upt_rec)
  have sql: "sql_chart_data example_host sample_only_example None = []"
    by (simp add: sql_chart_data_def sample_only_example_def str_or_def spec_field_def)
  have "Visualization64 example_host max_random (Some sample_only_example) None =
       Wrapper (ChartVisualization example_host sample_only_example
                  (summary_chart_data64 max_random sample_only_example))"
    by (simp add: Visualization64_def sql pts)
       (simp add: sample_only_example_def vizType_def chart_branch_def)
  with pts sql show ?thesis by (simp add: max_random_def)
qed

text \<open>
  Claim C9, amended. In the reconstruction from the summary (the chart branch is taken,
  there is no image and the table rows give no chart data), a summary with a non-empty
  sample yields one row for each sample value. An absent y range is treated as the range
  0 to 100, whatever the average is, and an absent y average as 50, whatever the range
  is. When both are absent, the y value of row \<open>i\<close> is \<^verbatim>\<open>50 + noise * 100 * 0.3\<close> computed
  in double precision with \<open>noise = random i - 0.5\<close>, and it lies within \<open>[35, 65]\<close>; the
  upper end 65 is reached, so the interval is closed.
\<close>

theorem summary_defaults:
  assumes "chart_branch d sqlRows" and "vizType d \<noteq> ''image''" and "\<not> truthy_str (viz_image d)"
    and "sql_chart_data h d sqlRows = []"
    and "data_summary d = Some ds" and "x_data_sample ds = Some xs" and "xs \<noteq> []"
    and "\<forall>i < length xs. 0 \<le> random i \<and> random i < 1"
  shows "\<exists>pts. Visualization64 h random (Some d) sqlRows =
                  Wrapper (ChartCard (title_of d)
                    (renderChart h (chartType_of d) (xColumn_of d) (yColumn_of d) pts)
                    (footer h d pts))
           \<and> length pts = length xs
           \<and> (\<forall>i < length xs.
                 (y_range ds = None \<longrightarrow>
                    cell (pts ! i) (yColumn_of d) =
                      JNum (synth_y64 (num_or_lit (y_average ds) (Fin 50)) (Fin 0, Fin 100)
                              (random i)))
               \<and> (y_average ds = None \<longrightarrow>
                    cell (pts ! i) (yColumn_of d) =
                      JNum (synth_y64 (Fin 50)
                              (case y_range ds of None \<Rightarrow> (Fin 0, Fin 100) | Some r \<Rightarrow> r)
                              (random i)))
               \<and> (y_range ds = None \<and> y_average ds = None \<longrightarrow>
                    cell (pts ! i) (yColumn_of d) =
                      JNum (Fin (round64 (50 + round64 (round64 (round64 (random i - 1 / 2) * 100)
                                                          * round64 (3 / 10)))))
                  \<and> 35 \<le> round64 (50 + round64 (round64 (round64 (random i - 1 / 2) * 100)
                                                * round64 (3 / 10)))
                  \<and> round64 (50 + round64 (round64 (round64 (random i - 1 / 2) * 100)
                                            * round64 (3 / 10))) \<le> 65))"
proof -
  let ?pts = "summary_chart_data64 random d"
  have len: "length ?pts = length xs"
    using assms(5,6) by (rule summary_chart_data64_length)
  with assms(7) have ne: "?pts \<noteq> []" by auto
  have out: "Visualization64 h random (Some d) sqlRows =
      Wrapper (ChartCard (title_of d)
        (renderChart h (chartType_of d) (xColumn_of d) (yColumn_of d) ?pts) (footer h d ?pts))"
    using assms(1-4) ne by (rule Visualization64_summary)
  have pt: "\<forall>i < length xs. (y_range ds = None \<longrightarrow>
                    cell (?pts ! i) (yColumn_of d) =
                      JNum (synth_y64 (num_or_lit (y_average ds) (Fin 50)) (Fin 0, Fin 100)
                              (random i)))
               \<and> (y_average ds = None \<longrightarrow>
                    cell (?pts ! i) (yColumn_of d) =
                      JNum (synth_y64 (Fin 50)
                              (case y_range ds of None \<Rightarrow> (Fin 0, Fin 100) | Some r \<Rightarrow> r)
                              (random i)))
               \<and> (y_range ds = None \<and> y_average ds = None \<longrightarrow>
                    cell (?pts ! i) (yColumn_of d) =
                      JNum (Fin (round64 (50 + round64 (round64 (round64 (random i - 1 / 2) * 100)
                                                          * round64 (3 / 10)))))
                  \<and> 35 \<le> round64 (50 + round64 (round64 (round64 (random i - 1 / 2) * 100)
                                                * round64 (3 / 10)))
                  \<and> round64 (50 + round64 (round64 (round64 (random i - 1 / 2) * 100)
                                            * round64 (3 / 10))) \<le> 65)"
  proof (intro allI impI)
    fix i
    assume i: "i < length xs"
    from assms(8) i have r: "0 \<le> random i" "random i < 1" by auto
    have nth: "cell (?pts ! i) (yColumn_of d) =
        JNum (synth_y64 (num_or_lit (y_average ds) (Fin 50))
                (case y_range ds of Some r \<Rightarrow> r | None \<Rightarrow> (Fin 0, Fin 100)) (random i))"
      by (simp only: summary_chart_data64_nth [OF assms(5,6) i] cell_obj2_second)
    have 1: "y_range ds = None \<longrightarrow>
                    cell (?pts ! i) (yColumn_of d) =
                      JNum (synth_y64 (num_or_lit (y_average ds) (Fin 50)) (Fin 0, Fin 100)
                              (random i))"
      by (simp add: nth)
    have 2: "y_average ds = None \<longrightarrow>
                    cell (?pts ! i) (yColumn_of d) =
                      JNum (synth_y64 (Fin 50)
                              (case y_range ds of None \<Rightarrow> (Fin 0, Fin 100) | Some r \<Rightarrow> r)
                              (random i))"
      by (cases "y_range ds") (simp_all add: nth)
    have 3: "y_range ds = None \<and> y_average ds = None \<longrightarrow>
                    cell (?pts ! i) (yColumn_of d) =
                      JNum (Fin (round64 (50 + round64 (round64 (round64 (random i - 1 / 2) * 100)
                                                          * round64 (3 / 10)))))"
      by (simp add: nth synth_y64_default)
    from 1 2 3 default_bounds [OF r]
    show "(y_range ds = None \<longrightarrow>
                    cell (?pts ! i) (yColumn_of d) =
                      JNum (synth_y64 (num_or_lit (y_average ds) (Fin 50)) (Fin 0, Fin 100)
                              (random i)))
               \<and> (y_average ds = None \<longrightarrow>
                    cell (?pts ! i) (yColumn_of d) =
                      JNum (synth_y64 (Fin 50)
                              (case y_range ds of None \<Rightarrow> (Fin 0, Fin 100) | Some r \<Rightarrow> r)
                              (random i)))
               \<and> (y_range ds = None \<and> y_average ds = None \<longrightarrow>
                    cell (?pts ! i) (yColumn_of d) =
                      JNum (Fin (round64 (50 + round64 (round64 (round64 (random i - 1 / 2) * 100)
                                                          * round64 (3 / 10)))))
                  \<and> 35 \<le> round64 (50 + round64 (round64 (round64 (random i - 1 / 2) * 100)
                                                * round64 (3 / 10)))
                  \<and> round64 (50 + round64 (round64 (round64 (random i - 1 / 2) * 100)
                                            * round64 (3 / 10))) \<le> 65)"
      by (intro conjI impI) simp_all
  qed
  from out len pt show ?thesis
    by - (rule exI [of _ ?pts], intro conjI, assumption+)
qed

text \<open>
  A summary holding only the sample a, b, for random values 0 and 1/2: two points with
  y values 35 and 50.
\<close>

theorem summary_defaults_witness:
  "chart_branch sample_only_example None \<and> vizType sample_only_example \<noteq> ''image''
   \<and> \<not> truthy_str (viz_image sample_only_example)
   \<and> sql_chart_data example_host sample_only_example None = []
   \<and> example_random 0 = 0 \<and> example_random 1 = 1 / 2
   \<and> (\<exists>pts. Visualization64 example_host example_random (Some sample_only_example) None =
               Wrapper (ChartCard ''Chart'' (BarChart pts ''x'' ''y'')
                          (footer example_host sample_only_example pts))
            \<and> length pts = 2
            \<and> cell (pts ! 0) ''y'' = JNum (Fin 35)
            \<and> cell (pts ! 1) ''y'' = JNum (Fin 50))"
proof -
  let ?xs = "[JStr ''a'', JStr ''b'']"
  let ?ds = "\<lparr> x_data_sample = Some ?xs, y_range = None, y_average = None, row_count = None \<rparr>"
  have a: "chart_branch sample_only_example None"
    and a': "vizType sample_only_example \<noteq> ''image''"
    and b: "\<not> truthy_str (viz_image sample_only_example)"
    and c: "sql_chart_data example_host sample_only_example None = []"
    and e: "data_summary sample_only_example = Some ?ds"
    by (simp_all add: sample_only_example_def sql_chart_data_def str_or_def spec_field_def
          chart_branch_def vizType_def)
  have f: "x_data_sample ?ds = Some ?xs" and g: "?xs \<noteq> []"
    by simp_all
  have k: "\<forall>i < length ?xs. 0 \<le> example_random i \<and> example_random i < 1"
    by (simp add: example_random_def)
  have rnd: "example_random 0 = 0" "example_random 1 = 1 / 2"
    by (simp_all add: example_random_def)
  have cols: "xColumn_of sample_only_example = ''x''" "yColumn_of sample_only_example = ''y''"
    "chartType_of sample_only_example = ''bar''" "title_of sample_only_example = ''Chart''"
    by (simp_all add: xColumn_of_def yColumn_of_def chartType_of_def title_of_def str_or_def
          spec_field_def sample_only_example_def)
  have y0: "round64 (50 + round64 (round64 (round64 (0 - 1 / 2) * 100) * round64 (3 / 10))) = 35"
    using min_term
    by (simp add: round64_minus round64_half round64_50 round64_three_tenths round64_35)
  have y1: "round64 (50 + round64 (round64 (round64 (1 / 2 - 1 / 2) * 100) * round64 (3 / 10))) = 50"
    by (simp add: round64_zero round64_50)
  from summary_defaults [OF a a' b c e f g k]
  obtain pts where
    out: "Visualization64 example_host example_random (Some sample_only_example) None =
            Wrapper (ChartCard (title_of sample_only_example)
              (renderChart example_host (chartType_of sample_only_example)
                 (xColumn_of sample_only_example) (yColumn_of sample_only_example) pts)
              (footer example_host sample_only_example pts))"
    and len: "length pts = length ?xs"
    and pt: "\<And>n. n < length ?xs \<Longrightarrow>
               y_range ?ds = None \<and> y_average ?ds = None \<longrightarrow>
               cell (pts ! n) (yColumn_of sample_only_example) =
                 JNum (Fin (round64 (50 + round64 (round64 (round64 (example_random n - 1 / 2) * 100)
                                                     * round64 (3 / 10)))))"
    by blast
  have p0: "cell (pts ! 0) ''y'' = JNum (Fin 35)"
    using pt [of 0] y0 by (simp add: cols rnd)
  have p1: "cell (pts ! 1) ''y'' = JNum (Fin 50)"
    using pt [of 1] y1 by (simp add: cols example_random_def)
  from out len have
    "Visualization64 example_host example_random (Some sample_only_example) None =
       Wrapper (ChartCard ''Chart'' (BarChart pts ''x'' ''y'')
                  (footer example_host sample_only_example pts)) \<and> length pts = 2"
    by (simp add: cols renderChart_def)
  with p0 p1 a a' b c rnd show ?thesis
    by (intro conjI exI [of _ pts]) simp_all
qed

end
